theory Spec2Isabelle
  imports Complex_Main
begin

section \<open>Shared types\<close>

text \<open>
  JavaScript numbers are modelled as exact reals: IEEE rounding is not part of the model.
  Where the source can produce \<open>Infinity\<close> (a division by zero) the model says so
  explicitly, see the type \<open>number\<close> of the performance service.
\<close>

datatype PerformanceMode = Auto | High | Medium | Low

text \<open>\<open>THREE.Vector3\<close>: the three coordinates \<open>x\<close>, \<open>y\<close>, \<open>z\<close>.\<close>

record Vector3 =
  vec_x :: real
  vec_y :: real
  vec_z :: real

section \<open>Scene state store (src/store/sceneStore.ts)\<close>

text \<open>
  The user preferences. At run time a field can hold \<open>undefined\<close>, which
  \<open>updateUserPreferences\<close> copies from its argument: a field is \<open>Some\<close> value, or
  \<open>None\<close> for \<open>undefined\<close>.
\<close>

record UserPreferences =
  reducedMotion :: "bool option"
  audioEnabled :: "bool option"
  skipIntroduction :: "bool option"
  pref_performanceMode :: "PerformanceMode option"

text \<open>
  \<open>Partial<UserPreferences>\<close>: a key is absent, or present with a value, or present with
  the value \<open>undefined\<close> (\<open>Present None\<close>), which the type admits as well.
\<close>

datatype 'a key = Absent | Present "'a option"

record PartialUserPreferences =
  part_reducedMotion :: "bool key"
  part_audioEnabled :: "bool key"
  part_skipIntroduction :: "bool key"
  part_performanceMode :: "PerformanceMode key"

record CameraRotation =
  rot_x :: real
  rot_y :: real

record SceneState =
  loaded :: bool
  currentZone :: string
  loadingProgress :: real
  userPosition :: Vector3
  cameraTarget :: Vector3
  cameraRotation :: CameraRotation
  scene_performanceMode :: PerformanceMode
  currentFPS :: real
  averageFPS :: real
  userPreferences :: UserPreferences
  isNavigating :: bool
  lastInteractionTime :: real
  error :: "string option"

text \<open>
  \<open>initialState\<close>; the field \<open>lastInteractionTime\<close> is \<open>Date.now()\<close> at module load,
  a parameter here.
\<close>

definition initialUserPreferences :: UserPreferences where
  "initialUserPreferences =
     \<lparr>reducedMotion = Some False, audioEnabled = Some True, skipIntroduction = Some False,
      pref_performanceMode = Some Auto\<rparr>"

definition initialState :: "real \<Rightarrow> SceneState" where
  "initialState now =
     \<lparr>loaded = False,
      currentZone = ''main'',
      loadingProgress = 0,
      userPosition = \<lparr>vec_x = 0, vec_y = 0, vec_z = 5\<rparr>,
      cameraTarget = \<lparr>vec_x = 0, vec_y = 0, vec_z = 0\<rparr>,
      cameraRotation = \<lparr>rot_x = 0, rot_y = 0\<rparr>,
      scene_performanceMode = Auto,
      currentFPS = 60,
      averageFPS = 60,
      userPreferences = initialUserPreferences,
      isNavigating = False,
      lastInteractionTime = now,
      error = None\<rparr>"

definition setLoaded :: "bool \<Rightarrow> SceneState \<Rightarrow> SceneState" where
  "setLoaded b s = s\<lparr>loaded := b\<rparr>"

definition setCurrentZone :: "string \<Rightarrow> SceneState \<Rightarrow> SceneState" where
  "setCurrentZone zone s = s\<lparr>currentZone := zone\<rparr>"

definition setLoadingProgress :: "real \<Rightarrow> SceneState \<Rightarrow> SceneState" where
  "setLoadingProgress progress s = s\<lparr>loadingProgress := max 0 (min 100 progress)\<rparr>"

definition updateUserPosition :: "Vector3 \<Rightarrow> SceneState \<Rightarrow> SceneState" where
  "updateUserPosition position s = s\<lparr>userPosition := position\<rparr>"

definition updateCameraTarget :: "Vector3 \<Rightarrow> SceneState \<Rightarrow> SceneState" where
  "updateCameraTarget target s = s\<lparr>cameraTarget := target\<rparr>"

definition updateCameraRotation :: "CameraRotation \<Rightarrow> SceneState \<Rightarrow> SceneState" where
  "updateCameraRotation rotation s = s\<lparr>cameraRotation := rotation\<rparr>"

definition setPerformanceMode :: "PerformanceMode \<Rightarrow> SceneState \<Rightarrow> SceneState" where
  "setPerformanceMode mode s =
     s\<lparr>scene_performanceMode := mode,
       userPreferences := (userPreferences s)\<lparr>pref_performanceMode := Some mode\<rparr>\<rparr>"

definition updateFPS :: "real \<Rightarrow> SceneState \<Rightarrow> SceneState" where
  "updateFPS f s = s\<lparr>currentFPS := f\<rparr>"

definition updateAverageFPS :: "real \<Rightarrow> SceneState \<Rightarrow> SceneState" where
  "updateAverageFPS f s = s\<lparr>averageFPS := f\<rparr>"

text \<open>
  The object spread \<open>{ ...state.userPreferences, ...preferences }\<close>: a key that is
  present in \<open>preferences\<close> overwrites the field, also when its value is \<open>undefined\<close>.
\<close>

definition spreadKey :: "'a option \<Rightarrow> 'a key \<Rightarrow> 'a option" where
  "spreadKey old k = (case k of Absent \<Rightarrow> old | Present v \<Rightarrow> v)"

definition spreadPreferences :: "UserPreferences \<Rightarrow> PartialUserPreferences \<Rightarrow> UserPreferences" where
  "spreadPreferences old p =
     \<lparr>reducedMotion = spreadKey (reducedMotion old) (part_reducedMotion p),
      audioEnabled = spreadKey (audioEnabled old) (part_audioEnabled p),
      skipIntroduction = spreadKey (skipIntroduction old) (part_skipIntroduction p),
      pref_performanceMode = spreadKey (pref_performanceMode old) (part_performanceMode p)\<rparr>"

text \<open>
  The test \<open>if (preferences.performanceMode)\<close> is a truthiness test: the four mode
  strings are truthy, \<open>undefined\<close> is not, whether the key is absent or present.
\<close>

definition updateUserPreferences :: "PartialUserPreferences \<Rightarrow> SceneState \<Rightarrow> SceneState" where
  "updateUserPreferences preferences s =
     (let s1 = s\<lparr>userPreferences := spreadPreferences (userPreferences s) preferences\<rparr>
      in case part_performanceMode preferences of
           Present (Some m) \<Rightarrow> s1\<lparr>scene_performanceMode := m\<rparr>
         | Present None \<Rightarrow> s1
         | Absent \<Rightarrow> s1)"

definition setIsNavigating :: "bool \<Rightarrow> SceneState \<Rightarrow> SceneState" where
  "setIsNavigating navigating s = s\<lparr>isNavigating := navigating\<rparr>"

definition updateLastInteractionTime :: "real \<Rightarrow> SceneState \<Rightarrow> SceneState" where
  "updateLastInteractionTime now s = s\<lparr>lastInteractionTime := now\<rparr>"

definition setError :: "string option \<Rightarrow> SceneState \<Rightarrow> SceneState" where
  "setError e s = s\<lparr>error := e\<rparr>"

text \<open>
  \<open>resetScene\<close> copies every field of \<open>initialState\<close> except \<open>lastInteractionTime\<close>,
  which is \<open>Date.now()\<close> at the call (\<open>now\<close>); \<open>t0\<close> is the load time that
  \<open>initialState\<close> was built with.
\<close>

definition resetScene :: "real \<Rightarrow> real \<Rightarrow> SceneState \<Rightarrow> SceneState" where
  "resetScene t0 now s =
     s\<lparr>loaded := loaded (initialState t0),
       currentZone := currentZone (initialState t0),
       loadingProgress := loadingProgress (initialState t0),
       userPosition := userPosition (initialState t0),
       cameraTarget := cameraTarget (initialState t0),
       cameraRotation := cameraRotation (initialState t0),
       scene_performanceMode := scene_performanceMode (initialState t0),
       currentFPS := currentFPS (initialState t0),
       averageFPS := averageFPS (initialState t0),
       userPreferences := userPreferences (initialState t0),
       isNavigating := isNavigating (initialState t0),
       lastInteractionTime := now,
       error := error (initialState t0)\<rparr>"

text \<open>
  \<open>initializeDefaults\<close> reads the browser: whether the user agent is a mobile one,
  whether \<open>navigator.hardwareConcurrency <= 2\<close>, whether the media query
  \<open>prefers-reduced-motion\<close> matches, and the clock.
\<close>

definition initializeDefaults :: "bool \<Rightarrow> bool \<Rightarrow> bool \<Rightarrow> real \<Rightarrow> SceneState \<Rightarrow> SceneState" where
  "initializeDefaults isMobile isLowEndDevice prefersReducedMotion now s =
     (let s1 = (if isMobile \<or> isLowEndDevice
                then s\<lparr>scene_performanceMode := Medium,
                       userPreferences := (userPreferences s)\<lparr>pref_performanceMode := Some Medium\<rparr>\<rparr>
                else s);
          s2 = (if prefersReducedMotion
                then s1\<lparr>userPreferences := (userPreferences s1)\<lparr>reducedMotion := Some True\<rparr>\<rparr>
                else s1)
      in s2\<lparr>lastInteractionTime := now\<rparr>)"

text \<open>The named operations of the store, and a run of them.\<close>

datatype SceneAction =
    SetLoaded bool
  | SetCurrentZone string
  | SetLoadingProgress real
  | UpdateUserPosition Vector3
  | UpdateCameraTarget Vector3
  | UpdateCameraRotation CameraRotation
  | SetPerformanceMode PerformanceMode
  | UpdateFPS real
  | UpdateAverageFPS real
  | UpdateUserPreferences PartialUserPreferences
  | SetIsNavigating bool
  | UpdateLastInteractionTime real
  | SetError "string option"
  | ResetScene real
  | InitializeDefaults bool bool bool real

fun dispatch :: "real \<Rightarrow> SceneAction \<Rightarrow> SceneState \<Rightarrow> SceneState" where
  "dispatch t0 (SetLoaded b) s = setLoaded b s"
| "dispatch t0 (SetCurrentZone zone) s = setCurrentZone zone s"
| "dispatch t0 (SetLoadingProgress p) s = setLoadingProgress p s"
| "dispatch t0 (UpdateUserPosition v) s = updateUserPosition v s"
| "dispatch t0 (UpdateCameraTarget v) s = updateCameraTarget v s"
| "dispatch t0 (UpdateCameraRotation r) s = updateCameraRotation r s"
| "dispatch t0 (SetPerformanceMode m) s = setPerformanceMode m s"
| "dispatch t0 (UpdateFPS f) s = updateFPS f s"
| "dispatch t0 (UpdateAverageFPS f) s = updateAverageFPS f s"
| "dispatch t0 (UpdateUserPreferences p) s = updateUserPreferences p s"
| "dispatch t0 (SetIsNavigating b) s = setIsNavigating b s"
| "dispatch t0 (UpdateLastInteractionTime now) s = updateLastInteractionTime now s"
| "dispatch t0 (SetError e) s = setError e s"
| "dispatch t0 (ResetScene now) s = resetScene t0 now s"
| "dispatch t0 (InitializeDefaults mob low red now) s = initializeDefaults mob low red now s"

fun runScene :: "real \<Rightarrow> SceneAction list \<Rightarrow> SceneState \<Rightarrow> SceneState" where
  "runScene t0 [] s = s"
| "runScene t0 (a # as) s = runScene t0 as (dispatch t0 a s)"

section \<open>Error tracking (src/services/ErrorTrackingService.ts)\<close>

datatype WebGLErrorType =
    webgl_context_lost | webgl_not_supported | shader_compilation_error
  | texture_load_error | model_load_error

record WebGLError =
  err_type :: WebGLErrorType
  message :: string
  stack :: "string option"
  userAgent :: string
  err_timestamp :: real
  additionalData :: "(string \<times> string) list option"

datatype PerformanceIssueType = low_fps | high_memory | slow_load_time | render_timeout

record PerformanceIssue =
  issue_type :: PerformanceIssueType
  issue_value :: real
  threshold :: real
  issue_timestamp :: real

record ErrorTrackingService =
  errors :: "WebGLError list"
  performanceIssues :: "PerformanceIssue list"

definition maxStoredErrors :: nat where
  "maxStoredErrors = 50"

definition maxStoredIssues :: nat where
  "maxStoredIssues = 100"

definition newErrorTrackingService :: ErrorTrackingService where
  "newErrorTrackingService = \<lparr>errors = [], performanceIssues = []\<rparr>"

text \<open>
  \<open>unshift\<close> puts the entry in front; \<open>slice(0, max)\<close> keeps the first \<open>max\<close> entries.
  The report to the analytics sink and the console line do not touch the lists.
\<close>

definition trackError :: "WebGLError \<Rightarrow> ErrorTrackingService \<Rightarrow> ErrorTrackingService" where
  "trackError e s =
     (let es = e # errors s
      in if length es > maxStoredErrors then s\<lparr>errors := take maxStoredErrors es\<rparr>
         else s\<lparr>errors := es\<rparr>)"

definition trackPerformanceIssue ::
    "PerformanceIssue \<Rightarrow> ErrorTrackingService \<Rightarrow> ErrorTrackingService" where
  "trackPerformanceIssue i s =
     (let is = i # performanceIssues s
      in if length is > maxStoredIssues then s\<lparr>performanceIssues := take maxStoredIssues is\<rparr>
         else s\<lparr>performanceIssues := is\<rparr>)"

definition clearErrors :: "ErrorTrackingService \<Rightarrow> ErrorTrackingService" where
  "clearErrors s = s\<lparr>errors := [], performanceIssues := []\<rparr>"

datatype TrackCall = TrackError WebGLError | TrackPerformanceIssue PerformanceIssue

fun track :: "TrackCall \<Rightarrow> ErrorTrackingService \<Rightarrow> ErrorTrackingService" where
  "track (TrackError e) s = trackError e s"
| "track (TrackPerformanceIssue i) s = trackPerformanceIssue i s"

fun runTracker :: "TrackCall list \<Rightarrow> ErrorTrackingService \<Rightarrow> ErrorTrackingService" where
  "runTracker [] s = s"
| "runTracker (c # cs) s = runTracker cs (track c s)"

text \<open>The errors, and the issues, among a list of calls, in call order.\<close>

fun errorsOf :: "TrackCall list \<Rightarrow> WebGLError list" where
  "errorsOf [] = []"
| "errorsOf (TrackError e # cs) = e # errorsOf cs"
| "errorsOf (TrackPerformanceIssue i # cs) = errorsOf cs"

fun issuesOf :: "TrackCall list \<Rightarrow> PerformanceIssue list" where
  "issuesOf [] = []"
| "issuesOf (TrackError e # cs) = issuesOf cs"
| "issuesOf (TrackPerformanceIssue i # cs) = i # issuesOf cs"

section \<open>Performance service (src/services/PerformanceService.ts)\<close>

text \<open>
  The numbers that the service computes. Clock readings are finite, so the only
  non-finite value that can arise is \<open>Infinity\<close>, from \<open>60000 / 0\<close> when a sampling
  window closes at the very clock reading it started at; sums and quotients by a positive
  count keep \<open>Infinity\<close>, and \<open>Infinity\<close> is greater than every threshold.
\<close>

datatype number = Finite real | Infinity

text \<open>\<open>(60 * 1000) / elapsedTime\<close>.\<close>

definition fpsOver :: "real \<Rightarrow> number" where
  "fpsOver elapsedTime = (if elapsedTime = 0 then Infinity else Finite (60 * 1000 / elapsedTime))"

fun plus_number :: "number \<Rightarrow> number \<Rightarrow> number" where
  "plus_number (Finite a) (Finite b) = Finite (a + b)"
| "plus_number _ _ = Infinity"

text \<open>Division by the length of a non-empty array.\<close>

fun over_count :: "number \<Rightarrow> nat \<Rightarrow> number" where
  "over_count (Finite a) n = Finite (a / real n)"
| "over_count Infinity n = Infinity"

fun number_lt :: "number \<Rightarrow> real \<Rightarrow> bool" where
  "number_lt (Finite a) c = (a < c)"
| "number_lt Infinity c = False"

fun number_gt :: "number \<Rightarrow> real \<Rightarrow> bool" where
  "number_gt (Finite a) c = (a > c)"
| "number_gt Infinity c = True"

record PerformanceMetrics =
  m_fps :: number
  m_frameTime :: real
  memoryUsage :: "real option"
  gpuMemoryUsage :: "real option"

record PerformanceSettings =
  set_targetFPS :: real
  antialias :: bool
  shadows :: bool
  textureQuality :: real
  renderScale :: real

fun performanceSettings :: "PerformanceMode \<Rightarrow> PerformanceSettings" where
  "performanceSettings High =
     \<lparr>set_targetFPS = 60, antialias = True, shadows = True, textureQuality = 1, renderScale = 1\<rparr>"
| "performanceSettings Medium =
     \<lparr>set_targetFPS = 45, antialias = True, shadows = False, textureQuality = 75 / 100,
      renderScale = 8 / 10\<rparr>"
| "performanceSettings Low =
     \<lparr>set_targetFPS = 30, antialias = False, shadows = False, textureQuality = 5 / 10,
      renderScale = 6 / 10\<rparr>"
| "performanceSettings Auto =
     \<lparr>set_targetFPS = 60, antialias = True, shadows = True, textureQuality = 1, renderScale = 1\<rparr>"

text \<open>
  A subscriber is a function object; \<open>indexOf\<close> compares function objects by identity,
  so a subscriber is named by a number, one per function object.
\<close>

type_synonym callback = nat

record PerformanceService =
  frameCount :: nat
  lastTime :: real
  fpsCalculationStartTime :: real
  fps :: number
  frameTime :: real
  fpsHistory :: "number list"
  performanceMode :: PerformanceMode
  targetFPS :: real
  callbacks :: "callback list"
  animationFrameId :: "nat option"

text \<open>
  The field initialisers and the constructor: two readings of the clock, and the
  identifier that \<open>requestAnimationFrame\<close> returns to \<open>startMonitoring\<close>.
\<close>

definition newPerformanceService :: "real \<Rightarrow> real \<Rightarrow> nat \<Rightarrow> PerformanceService" where
  "newPerformanceService now1 now2 raf =
     \<lparr>frameCount = 0, lastTime = now1, fpsCalculationStartTime = now2, fps = Finite 60,
      frameTime = 1667 / 100, fpsHistory = [], performanceMode = Auto, targetFPS = 60,
      callbacks = [], animationFrameId = Some raf\<rparr>"

text \<open>
  The animation frames that have been requested from the browser for \<open>monitor\<close> and
  are neither delivered nor cancelled yet are a list of request identifiers, oldest first.
  \<open>requestAnimationFrame\<close> appends the identifier that it returns,
  \<open>cancelAnimationFrame\<close> removes one. After the constructor the list is the one
  identifier that the constructor was given.
\<close>

type_synonym requests = "nat list"

definition startMonitoring :: "nat \<Rightarrow> requests \<Rightarrow> PerformanceService \<Rightarrow> requests \<times> PerformanceService" where
  "startMonitoring raf pend s = (pend @ [raf], s\<lparr>animationFrameId := Some raf\<rparr>)"

definition stopMonitoring :: "requests \<Rightarrow> PerformanceService \<Rightarrow> requests \<times> PerformanceService" where
  "stopMonitoring pend s =
     (case animationFrameId s of
        Some i \<Rightarrow> (removeAll i pend, s\<lparr>animationFrameId := None\<rparr>)
      | None \<Rightarrow> (pend, s))"

text \<open>\<open>PerformanceService.setPerformanceMode\<close> (the store has an operation of the same name).\<close>

definition service_setPerformanceMode :: "PerformanceMode \<Rightarrow> PerformanceService \<Rightarrow> PerformanceService" where
  "service_setPerformanceMode mode s =
     s\<lparr>performanceMode := mode, targetFPS := set_targetFPS (performanceSettings mode)\<rparr>"

definition getPerformanceMode :: "PerformanceService \<Rightarrow> PerformanceMode" where
  "getPerformanceMode s = performanceMode s"

definition getCurrentFPS :: "PerformanceService \<Rightarrow> number" where
  "getCurrentFPS s = fps s"

text \<open>\<open>reduce((a, b) => a + b, 0)\<close> is a fold from the left starting at 0.\<close>

definition getAverageFPS :: "PerformanceService \<Rightarrow> number" where
  "getAverageFPS s =
     (if length (fpsHistory s) = 0 then fps s
      else over_count (foldl plus_number (Finite 0) (fpsHistory s)) (length (fpsHistory s)))"

text \<open>\<open>indexOf\<close>: the first position holding the element, \<open>-1\<close> when there is none.\<close>

fun indexOf :: "'a list \<Rightarrow> 'a \<Rightarrow> int" where
  "indexOf [] a = -1"
| "indexOf (x # xs) a =
     (if x = a then 0 else (let i = indexOf xs a in if i = -1 then -1 else i + 1))"

text \<open>\<open>splice(index, 1)\<close> for an index inside the array.\<close>

definition splice1 :: "nat \<Rightarrow> 'a list \<Rightarrow> 'a list" where
  "splice1 i xs = take i xs @ drop (Suc i) xs"

definition subscribe :: "callback \<Rightarrow> PerformanceService \<Rightarrow> PerformanceService" where
  "subscribe cb s = s\<lparr>callbacks := callbacks s @ [cb]\<rparr>"

text \<open>
  The closure that \<open>subscribe\<close> returns captures nothing but \<open>callback\<close>: the handle of
  \<open>subscribe cb\<close> is \<open>unsubscribe cb\<close>.
\<close>

definition unsubscribe :: "callback \<Rightarrow> PerformanceService \<Rightarrow> PerformanceService" where
  "unsubscribe cb s =
     (let index = indexOf (callbacks s) cb
      in if index > -1 then s\<lparr>callbacks := splice1 (nat index) (callbacks s)\<rparr> else s)"

definition updateFPSHistory :: "number \<Rightarrow> PerformanceService \<Rightarrow> PerformanceService" where
  "updateFPSHistory f s =
     (let h = fpsHistory s @ [f]
      in if length h > 30 then s\<lparr>fpsHistory := tl h\<rparr> else s\<lparr>fpsHistory := h\<rparr>)"

definition autoAdjustPerformance :: "PerformanceService \<Rightarrow> PerformanceService" where
  "autoAdjustPerformance s =
     (let averageFPS = getAverageFPS s
      in if number_lt averageFPS 25 \<and> performanceMode s \<noteq> Low then s\<lparr>performanceMode := Low\<rparr>
         else if number_lt averageFPS 40 \<and> performanceMode s = High then s\<lparr>performanceMode := Medium\<rparr>
         else if number_gt averageFPS 55 \<and> performanceMode s = Low then s\<lparr>performanceMode := Medium\<rparr>
         else if number_gt averageFPS 55 \<and> performanceMode s = Medium then s\<lparr>performanceMode := High\<rparr>
         else s)"

text \<open>
  \<open>getMemoryUsage\<close>: \<open>performance.memory.usedJSHeapSize\<close> in megabytes where the browser
  has \<open>performance.memory\<close>.
\<close>

definition getMemoryUsage :: "real option \<Rightarrow> real option" where
  "getMemoryUsage usedJSHeapSize =
     (case usedJSHeapSize of Some b \<Rightarrow> Some (b / 1048576) | None \<Rightarrow> None)"

definition getGPUMemoryUsage :: "real option" where
  "getGPUMemoryUsage = None"

text \<open>
  What a subscriber does when it is called is outside the service. It is a function
  object of the program, so besides computing it can call the public methods of the
  service that change it, any number of times, before it returns or throws: set the
  performance mode, subscribe a function, invoke an unsubscribe handle, start or stop
  monitoring (\<open>CallStartMonitoring\<close> carries the identifier that
  \<open>requestAnimationFrame\<close> returns). The getters change nothing. What it does may depend
  on which function it is, on the position at which \<open>forEach\<close> calls it, on the snapshot
  and on the service at that moment. All subscribers are passed the same snapshot object,
  so a subscriber can also write into it: \<open>leaves\<close> is the snapshot as it leaves it,
  which is what the next subscriber is called with. A subscriber that never returns is
  not modelled.
\<close>

datatype CallbackResult = Returns | Throws

datatype ServiceCall =
    CallSetPerformanceMode PerformanceMode
  | CallSubscribe callback
  | CallUnsubscribe callback
  | CallStartMonitoring nat
  | CallStopMonitoring

record Reaction =
  calls :: "ServiceCall list"
  leaves :: PerformanceMetrics
  outcome :: CallbackResult

type_synonym behaviour = "callback \<Rightarrow> nat \<Rightarrow> PerformanceMetrics \<Rightarrow> PerformanceService \<Rightarrow> Reaction"

fun perform :: "ServiceCall \<Rightarrow> requests \<times> PerformanceService \<Rightarrow> requests \<times> PerformanceService" where
  "perform (CallSetPerformanceMode mode) (pend, s) = (pend, service_setPerformanceMode mode s)"
| "perform (CallSubscribe cb) (pend, s) = (pend, subscribe cb s)"
| "perform (CallUnsubscribe cb) (pend, s) = (pend, unsubscribe cb s)"
| "perform (CallStartMonitoring raf) (pend, s) = startMonitoring raf pend s"
| "perform CallStopMonitoring (pend, s) = stopMonitoring pend s"

fun performAll :: "ServiceCall list \<Rightarrow> requests \<times> PerformanceService \<Rightarrow> requests \<times> PerformanceService" where
  "performAll [] w = w"
| "performAll (a # as) w = performAll as (perform a w)"

text \<open>
  \<open>this.callbacks.forEach(callback => callback(metrics))\<close>. \<open>Array.prototype.forEach\<close>
  reads the length of the array once, then visits the positions below that length in
  ascending order; at each position it looks into the array as it is at that moment, and
  passes over a position that the array no longer has. So a subscriber removed by an
  earlier subscriber shifts the later ones down by one position, and a subscriber added
  during the walk is not visited. An exception leaves \<open>forEach\<close> at once. The result
  records the calls made, in order, each with the snapshot as the subscriber was given it.
\<close>

record ForEachResult =
  fe_service :: PerformanceService
  fe_pending :: requests
  fe_notified :: "(callback \<times> PerformanceMetrics) list"
  fe_threw :: bool

text \<open>\<open>forEachFrom beh m n k\<close>: the walk from position \<open>k\<close> with \<open>n\<close> positions left.\<close>

fun forEachFrom ::
    "behaviour \<Rightarrow> PerformanceMetrics \<Rightarrow> nat \<Rightarrow> nat \<Rightarrow> requests \<Rightarrow> PerformanceService \<Rightarrow> ForEachResult" where
  "forEachFrom beh m 0 k pend s =
     \<lparr>fe_service = s, fe_pending = pend, fe_notified = [], fe_threw = False\<rparr>"
| "forEachFrom beh m (Suc n) k pend s =
     (if k < length (callbacks s)
      then (let c = callbacks s ! k;
                r = beh c k m s;
                w = performAll (calls r) (pend, s)
            in case outcome r of
                 Throws \<Rightarrow>
                   \<lparr>fe_service = snd w, fe_pending = fst w, fe_notified = [(c, m)], fe_threw = True\<rparr>
               | Returns \<Rightarrow>
                   (let rest = forEachFrom beh (leaves r) n (Suc k) (fst w) (snd w)
                    in rest\<lparr>fe_notified := (c, m) # fe_notified rest\<rparr>))
      else forEachFrom beh m n (Suc k) pend s)"

definition forEach ::
    "behaviour \<Rightarrow> PerformanceMetrics \<Rightarrow> requests \<Rightarrow> PerformanceService \<Rightarrow> ForEachResult" where
  "forEach beh m pend s = forEachFrom beh m (length (callbacks s)) 0 pend s"

text \<open>What one invocation of \<open>monitor\<close> reads from the browser.\<close>

record Frame =
  frame_now :: real
  frame_heap :: "real option"
  frame_raf :: nat

record MonitorResult =
  service :: PerformanceService
  pending :: requests
  notified :: "(callback \<times> PerformanceMetrics) list"
  threw :: bool

text \<open>
  One invocation of \<open>monitor\<close>; \<open>pend\<close> are the requests other than the one being
  delivered. The last statement, which requests the next frame, is reached only when no
  subscriber threw.
\<close>

definition monitor :: "behaviour \<Rightarrow> Frame \<Rightarrow> requests \<Rightarrow> PerformanceService \<Rightarrow> MonitorResult" where
  "monitor beh f pend s =
     (let currentTime = frame_now f;
          s1 = s\<lparr>frameTime := currentTime - lastTime s, lastTime := currentTime,
                 frameCount := frameCount s + 1\<rparr>
      in if frameCount s1 mod 60 = 0
         then
           (let elapsedTime = currentTime - fpsCalculationStartTime s1;
                s2 = s1\<lparr>fps := fpsOver elapsedTime, fpsCalculationStartTime := currentTime\<rparr>;
                s3 = updateFPSHistory (fps s2) s2;
                s4 = (if performanceMode s3 = Auto then autoAdjustPerformance s3 else s3);
                metrics = \<lparr>m_fps = fps s4, m_frameTime = frameTime s4,
                           memoryUsage = getMemoryUsage (frame_heap f),
                           gpuMemoryUsage = getGPUMemoryUsage\<rparr>;
                r = forEach beh metrics pend s4
            in if fe_threw r
               then \<lparr>service = fe_service r, pending = fe_pending r,
                     notified = fe_notified r, threw = True\<rparr>
               else \<lparr>service = (fe_service r)\<lparr>animationFrameId := Some (frame_raf f)\<rparr>,
                     pending = fe_pending r @ [frame_raf f],
                     notified = fe_notified r, threw = False\<rparr>)
         else \<lparr>service = s1\<lparr>animationFrameId := Some (frame_raf f)\<rparr>,
               pending = pend @ [frame_raf f], notified = [], threw = False\<rparr>)"

text \<open>
  The invocations of \<open>monitor\<close> that the browser makes, one after the other, with the
  calls made to subscribers along the way. The browser takes the oldest request off the
  list and delivers it; the run ends when an invocation leaves no request behind, as a
  single loop does at an invocation that threw.
\<close>

fun runFrames :: "behaviour \<Rightarrow> Frame list \<Rightarrow> requests \<Rightarrow> PerformanceService \<Rightarrow> MonitorResult" where
  "runFrames beh [] pend s = \<lparr>service = s, pending = pend, notified = [], threw = False\<rparr>"
| "runFrames beh (f # fs) pend s =
     (let r = monitor beh f (tl pend) s
      in if pending r = [] then r
         else (let r' = runFrames beh fs (pending r) (service r)
               in r'\<lparr>notified := notified r @ notified r', threw := (threw r \<or> threw r')\<rparr>))"

text \<open>Sixty frames, the first \<open>T\<close> milliseconds after \<open>t0\<close>, each \<open>T\<close> after the one before.\<close>

definition evenFrames :: "real \<Rightarrow> real \<Rightarrow> Frame list" where
  "evenFrames t0 T =
     map (\<lambda>k. \<lparr>frame_now = t0 + real (Suc k) * T, frame_heap = None, frame_raf = Suc k\<rparr>) [0..<60]"

section \<open>Camera controller (src/components/3d/Scene/CameraController.tsx)\<close>

















section \<open>Auxiliary definitions for the theorems\<close>

text \<open>A run of \<open>updateFPSHistory\<close> over a list of sampled values, one push per value.\<close>

fun pushAll :: "number list \<Rightarrow> PerformanceService \<Rightarrow> PerformanceService" where
  "pushAll [] s = s"
| "pushAll (v # vs) s = pushAll vs (updateFPSHistory v s)"


text \<open>
  The service at the end of an invocation of \<open>monitor\<close> that closes a sampling window,
  just before the subscribers are called, and the snapshot that it builds for them.
\<close>

definition windowClosed :: "Frame \<Rightarrow> PerformanceService \<Rightarrow> PerformanceService" where
  "windowClosed f s =
     (let s1 = s\<lparr>frameTime := frame_now f - lastTime s, lastTime := frame_now f,
                 frameCount := frameCount s + 1\<rparr>;
          s2 = s1\<lparr>fps := fpsOver (frame_now f - fpsCalculationStartTime s1),
                  fpsCalculationStartTime := frame_now f\<rparr>;
          s3 = updateFPSHistory (fps s2) s2
      in if performanceMode s3 = Auto then autoAdjustPerformance s3 else s3)"

definition snapshot :: "Frame \<Rightarrow> PerformanceService \<Rightarrow> PerformanceMetrics" where
  "snapshot f s =
     \<lparr>m_fps = fps (windowClosed f s), m_frameTime = frameTime (windowClosed f s),
      memoryUsage = getMemoryUsage (frame_heap f), gpuMemoryUsage = None\<rparr>"

subsection \<open>Concrete inputs\<close>

text \<open>The argument \<open>{ performanceMode: undefined }\<close> of \<open>updateUserPreferences\<close>.\<close>

definition undefinedPerformanceMode :: PartialUserPreferences where
  "undefinedPerformanceMode =
     \<lparr>part_reducedMotion = Absent, part_audioEnabled = Absent, part_skipIntroduction = Absent,
      part_performanceMode = Present None\<rparr>"

text \<open>Error number \<open>n\<close> carries \<open>n\<close> as its timestamp.\<close>

definition sampleError :: "nat \<Rightarrow> WebGLError" where
  "sampleError n =
     \<lparr>err_type = shader_compilation_error, message = ''Error'', stack = None,
      userAgent = ''test-agent'', err_timestamp = real n, additionalData = None\<rparr>"

text \<open>
  Subscribers that make no call into the service and do not write into the snapshot:
  subscriber 1 throws and every other subscriber returns; all subscribers return. And
  subscriber 1 invoking its own unsubscribe handle before it returns.
\<close>

definition firstThrows :: behaviour where
  "firstThrows c k m s =
     \<lparr>calls = [], leaves = m, outcome = (if c = 1 then Throws else Returns)\<rparr>"

definition allReturn :: behaviour where
  "allReturn c k m s = \<lparr>calls = [], leaves = m, outcome = Returns\<rparr>"

definition firstUnsubscribesItself :: behaviour where
  "firstUnsubscribesItself c k m s =
     \<lparr>calls = (if c = 1 then [CallUnsubscribe 1] else []), leaves = m, outcome = Returns\<rparr>"

text \<open>A fresh service, created at time 0, and the one frame that its constructor requested.\<close>

definition freshService :: PerformanceService where
  "freshService = newPerformanceService 0 0 0"

definition freshRequests :: requests where
  "freshRequests = [0]"

definition twoSubscribers :: PerformanceService where
  "twoSubscribers = subscribe 2 (subscribe 1 freshService)"

definition autoService :: PerformanceService where
  "autoService = service_setPerformanceMode Auto freshService"

text \<open>
  The service in automatic mode after a window of 60 frames 100 ms apart (10 frames per
  second), and after a second window of 60 frames 8 ms apart (125 frames per second).
\<close>

definition afterSlowWindow :: MonitorResult where
  "afterSlowWindow = runFrames allReturn (evenFrames 0 100) freshRequests autoService"

definition afterFastWindow :: MonitorResult where
  "afterFastWindow =
     runFrames allReturn (evenFrames 6000 8) (pending afterSlowWindow) (service afterSlowWindow)"



text \<open>The frame that closes the first window of \<open>evenFrames 0 10\<close>, and the 59 before it.\<close>

definition closingFrame :: Frame where
  "closingFrame = \<lparr>frame_now = 600, frame_heap = None, frame_raf = 60\<rparr>"

definition twoSubscribersAt59 :: PerformanceService where
  "twoSubscribersAt59 =
     service (runFrames firstThrows (butlast (evenFrames 0 10)) freshRequests twoSubscribers)"




section \<open>Theorems: scene state store\<close>

lemma dispatch_sync:
  "pref_performanceMode (userPreferences s) = Some (scene_performanceMode s) \<Longrightarrow>
   (\<And>p. a = UpdateUserPreferences p \<Longrightarrow> part_performanceMode p \<noteq> Present None) \<Longrightarrow>
   pref_performanceMode (userPreferences (dispatch t0 a s)) =
     Some (scene_performanceMode (dispatch t0 a s))"
  by (cases a)
     (auto simp: setLoaded_def setCurrentZone_def setLoadingProgress_def updateUserPosition_def
        updateCameraTarget_def updateCameraRotation_def setPerformanceMode_def updateFPS_def
        updateAverageFPS_def updateUserPreferences_def spreadPreferences_def spreadKey_def
        setIsNavigating_def updateLastInteractionTime_def setError_def resetScene_def
        initializeDefaults_def initialState_def initialUserPreferences_def Let_def
        split: key.splits option.splits)

text \<open>
  C9: after \<open>setLoadingProgress x\<close>, in any state of the store, the stored loading progress
  is \<open>x\<close> clamped to the range from 0 to 100: 0 below 0, 100 above 100, \<open>x\<close> itself in
  between. The operation always succeeds.
\<close>

theorem C9_setLoadingProgress_clamps:
  "loadingProgress (setLoadingProgress x (runScene t0 as (initialState t0))) =
     (if x < 0 then 0 else if x > 100 then 100 else x)"
  by (simp add: setLoadingProgress_def)

text \<open>
  C10 on the code: \<open>updateUserPreferences({ performanceMode: undefined })\<close> on the initial
  state. The spread copies \<open>undefined\<close> into the performance mode of the user
  preferences; the truthiness test fails, so the top-level performance mode is not written
  and stays \<open>auto\<close>: the two fields differ. Every other call of a named operation keeps
  them equal (\<open>dispatch_sync\<close>).
\<close>

theorem C10_undefined_key_breaks_sync:
  "pref_performanceMode (userPreferences (initialState 0)) =
     Some (scene_performanceMode (initialState 0)) \<and>
   scene_performanceMode (dispatch 0 (UpdateUserPreferences undefinedPerformanceMode)
     (initialState 0)) = Auto \<and>
   pref_performanceMode (userPreferences (dispatch 0 (UpdateUserPreferences undefinedPerformanceMode)
     (initialState 0))) = None"
  by (simp add: initialState_def initialUserPreferences_def updateUserPreferences_def
      spreadPreferences_def spreadKey_def undefinedPerformanceMode_def)

section \<open>Theorems: error tracking\<close>

lemma take_append_take: "take n (xs @ take n ys) = take n (xs @ ys)"
  by simp

lemma trackError_errors: "errors (trackError e s) = take maxStoredErrors (e # errors s)"
  by (simp add: trackError_def Let_def)

lemma trackError_issues: "performanceIssues (trackError e s) = performanceIssues s"
  by (simp add: trackError_def Let_def)

lemma trackPerformanceIssue_issues:
  "performanceIssues (trackPerformanceIssue i s) = take maxStoredIssues (i # performanceIssues s)"
  by (simp add: trackPerformanceIssue_def Let_def)

lemma trackPerformanceIssue_errors: "errors (trackPerformanceIssue i s) = errors s"
  by (simp add: trackPerformanceIssue_def Let_def)

lemma runTracker_errors:
  "length (errors s) \<le> maxStoredErrors \<Longrightarrow>
   errors (runTracker cs s) = take maxStoredErrors (rev (errorsOf cs) @ errors s)"
proof (induction cs arbitrary: s)
  case Nil
  then show ?case by simp
next
  case (Cons c cs)
  show ?case
  proof (cases c)
    case (TrackError e)
    have "length (errors (trackError e s)) \<le> maxStoredErrors"
      by (simp add: trackError_errors)
    from Cons.IH[OF this] TrackError show ?thesis
      by (simp add: trackError_errors take_append_take)
  next
    case (TrackPerformanceIssue i)
    from Cons.IH[of "trackPerformanceIssue i s"] Cons.prems TrackPerformanceIssue show ?thesis
      by (simp add: trackPerformanceIssue_errors)
  qed
qed

lemma runTracker_issues:
  "length (performanceIssues s) \<le> maxStoredIssues \<Longrightarrow>
   performanceIssues (runTracker cs s) =
     take maxStoredIssues (rev (issuesOf cs) @ performanceIssues s)"
proof (induction cs arbitrary: s)
  case Nil
  then show ?case by simp
next
  case (Cons c cs)
  show ?case
  proof (cases c)
    case (TrackPerformanceIssue i)
    have "length (performanceIssues (trackPerformanceIssue i s)) \<le> maxStoredIssues"
      by (simp add: trackPerformanceIssue_issues)
    from Cons.IH[OF this] TrackPerformanceIssue show ?thesis
      by (simp add: trackPerformanceIssue_issues take_append_take)
  next
    case (TrackError e)
    from Cons.IH[of "trackError e s"] Cons.prems TrackError show ?thesis
      by (simp add: trackError_issues)
  qed
qed

lemma errorsOf_map_TrackError: "errorsOf (map TrackError es) = es"
  by (induction es) simp_all

text \<open>
  C7: after any sequence of \<open>trackError\<close> and \<open>trackPerformanceIssue\<close> calls on a fresh
  tracker, the error list is the 50 most recently tracked errors, most recent first, so
  it never has more than 50 entries; 60 errors tracked into a fresh tracker leave the last
  50 of them, most recent first, the 10 oldest being gone. The issue list is the 100 most
  recently tracked issues, most recent first.
\<close>

theorem C7_bounded_most_recent_first:
  "errors (runTracker cs newErrorTrackingService) = take 50 (rev (errorsOf cs)) \<and>
   length (errors (runTracker cs newErrorTrackingService)) \<le> 50 \<and>
   (length es = 60 \<longrightarrow>
      errors (runTracker (map TrackError es) newErrorTrackingService) = rev (drop 10 es)) \<and>
   performanceIssues (runTracker cs newErrorTrackingService) = take 100 (rev (issuesOf cs)) \<and>
   length (performanceIssues (runTracker cs newErrorTrackingService)) \<le> 100"
proof -
  have e: "errors (runTracker cs' newErrorTrackingService) = take 50 (rev (errorsOf cs'))" for cs'
    using runTracker_errors[of newErrorTrackingService cs']
    by (simp add: newErrorTrackingService_def maxStoredErrors_def)
  have i: "performanceIssues (runTracker cs newErrorTrackingService) = take 100 (rev (issuesOf cs))"
    using runTracker_issues[of newErrorTrackingService cs]
    by (simp add: newErrorTrackingService_def maxStoredIssues_def)
  have s: "errors (runTracker (map TrackError es) newErrorTrackingService) = rev (drop 10 es)"
    if "length es = 60"
    using that by (simp add: e errorsOf_map_TrackError take_rev)
  show ?thesis using s by (simp add: e i)
qed

theorem C7_bounded_most_recent_first_witness:
  "length (map sampleError [0..<60]) = 60 \<and>
   errors (runTracker (map TrackError (map sampleError [0..<60])) newErrorTrackingService) =
     map sampleError (rev [10..<60])"
  using C7_bounded_most_recent_first[of "[]" "map sampleError [0..<60]"]
  by (simp add: drop_map rev_map)

section \<open>Theorems: performance service\<close>

subsection \<open>The FPS history and its average\<close>

lemma push_shift:
  "length h \<le> 30 \<Longrightarrow>
   (if length (h @ [v]) > 30 then tl (h @ [v]) else h @ [v]) =
     drop (length (h @ [v]) - 30) (h @ [v])"
proof -
  assume "length h \<le> 30"
  then consider "length h = 30" | "length h < 30" by linarith
  then show ?thesis
  proof cases
    case 1
    then show ?thesis by (cases h) (simp_all add: drop_Suc)
  next
    case 2
    then show ?thesis by simp
  qed
qed

lemma last_n_append:
  "drop (length (drop (length xs - n) xs @ ys) - n) (drop (length xs - n) xs @ ys) =
   drop (length (xs @ ys) - n) (xs @ ys)"
proof (cases "length xs \<le> n")
  case True
  then show ?thesis by simp
next
  case False
  then have "length xs - (length xs - n) = n" by simp
  then show ?thesis using False by (simp add: add.commute)
qed

lemma updateFPSHistory_history:
  "length (fpsHistory s) \<le> 30 \<Longrightarrow>
   fpsHistory (updateFPSHistory v s) =
     drop (length (fpsHistory s @ [v]) - 30) (fpsHistory s @ [v])"
proof -
  assume l: "length (fpsHistory s) \<le> 30"
  have "fpsHistory (updateFPSHistory v s) =
        (if length (fpsHistory s @ [v]) > 30 then tl (fpsHistory s @ [v]) else fpsHistory s @ [v])"
    by (simp add: updateFPSHistory_def Let_def)
  also have "\<dots> = drop (length (fpsHistory s @ [v]) - 30) (fpsHistory s @ [v])"
    using l by (rule push_shift)
  finally show ?thesis .
qed

lemma pushAll_history:
  "length (fpsHistory s) \<le> 30 \<Longrightarrow>
   fpsHistory (pushAll vs s) = drop (length (fpsHistory s @ vs) - 30) (fpsHistory s @ vs)"
proof (induction vs arbitrary: s)
  case Nil
  then show ?case by simp
next
  case (Cons v vs)
  let ?s = "updateFPSHistory v s"
  have h: "fpsHistory ?s = drop (length (fpsHistory s @ [v]) - 30) (fpsHistory s @ [v])"
    using Cons.prems by (rule updateFPSHistory_history)
  then have l: "length (fpsHistory ?s) \<le> 30" by simp
  have "fpsHistory (pushAll (v # vs) s) =
        drop (length (fpsHistory ?s @ vs) - 30) (fpsHistory ?s @ vs)"
    using Cons.IH[OF l] by simp
  also have "\<dots> = drop (length ((fpsHistory s @ [v]) @ vs) - 30) ((fpsHistory s @ [v]) @ vs)"
    unfolding h by (rule last_n_append)
  finally show ?case by simp
qed

lemma foldl_plus_Finite:
  "foldl plus_number (Finite a) (map Finite rs) = Finite (a + sum_list rs)"
  by (induction rs arbitrary: a) (simp_all add: add.assoc)

lemma foldl_plus_Infinity: "foldl plus_number Infinity h = Infinity"
  by (induction h) simp_all

lemma plus_number_Infinity_right: "plus_number a Infinity = Infinity"
  by (cases a) simp_all

lemma foldl_plus_has_Infinity: "Infinity \<in> set h \<Longrightarrow> foldl plus_number a h = Infinity"
  by (induction h arbitrary: a) (auto simp: foldl_plus_Infinity plus_number_Infinity_right)

lemma getAverageFPS_Finite:
  "rs \<noteq> [] \<Longrightarrow> fpsHistory s = map Finite rs \<Longrightarrow>
   getAverageFPS s = Finite (sum_list rs / real (length rs))"
  by (simp add: getAverageFPS_def foldl_plus_Finite)

lemma getAverageFPS_Infinity: "Infinity \<in> set (fpsHistory s) \<Longrightarrow> getAverageFPS s = Infinity"
  by (auto simp: getAverageFPS_def foldl_plus_has_Infinity)

text \<open>
  C8: after any sequence of sampled values pushed into the history of a fresh service, the
  history holds the last 30 of them in the order pushed (the oldest go first), so its
  length is at most 30. In any state, \<open>getAverageFPS\<close> is the last instantaneous FPS when
  the history is empty, the arithmetic mean of the history when its values are finite, and
  \<open>Infinity\<close> when one of them is \<open>Infinity\<close>.
\<close>

theorem C8_history_window_and_mean:
  "fpsHistory (pushAll vs (newPerformanceService now1 now2 raf)) = drop (length vs - 30) vs \<and>
   length (fpsHistory (pushAll vs (newPerformanceService now1 now2 raf))) \<le> 30 \<and>
   (fpsHistory s = [] \<longrightarrow> getAverageFPS s = fps s) \<and>
   (rs \<noteq> [] \<and> fpsHistory s = map Finite rs \<longrightarrow>
      getAverageFPS s = Finite (sum_list rs / real (length rs))) \<and>
   (Infinity \<in> set (fpsHistory s) \<longrightarrow> getAverageFPS s = Infinity)"
proof -
  have h: "fpsHistory (pushAll vs (newPerformanceService now1 now2 raf)) = drop (length vs - 30) vs"
    using pushAll_history[of "newPerformanceService now1 now2 raf" vs]
    by (simp add: newPerformanceService_def)
  have e: "fpsHistory s = [] \<longrightarrow> getAverageFPS s = fps s"
    by (simp add: getAverageFPS_def)
  show ?thesis
    unfolding h using e getAverageFPS_Finite[of rs s] getAverageFPS_Infinity[of s] by simp
qed

theorem C8_history_window_and_mean_witness:
  "fpsHistory freshService = [] \<and> getAverageFPS freshService = Finite 60 \<and>
   fpsHistory (pushAll [Finite 10, Finite 20] freshService) = map Finite [10, 20] \<and>
   getAverageFPS (pushAll [Finite 10, Finite 20] freshService) = Finite 15 \<and>
   Infinity \<in> set (fpsHistory (pushAll [Finite 10, Infinity] freshService)) \<and>
   getAverageFPS (pushAll [Finite 10, Infinity] freshService) = Infinity"
  using C8_history_window_and_mean[of "[]" 0 0 0 freshService "[]"]
    C8_history_window_and_mean[of "[]" 0 0 0 "pushAll [Finite 10, Finite 20] freshService" "[10, 20]"]
    C8_history_window_and_mean[of "[]" 0 0 0 "pushAll [Finite 10, Infinity] freshService" "[]"]
  by (simp add: freshService_def newPerformanceService_def updateFPSHistory_def)

subsection \<open>Calls made by subscribers\<close>

lemma perform_keeps:
  "fps (snd (perform a w)) = fps (snd w) \<and>
   fpsHistory (snd (perform a w)) = fpsHistory (snd w) \<and>
   frameCount (snd (perform a w)) = frameCount (snd w) \<and>
   fpsCalculationStartTime (snd (perform a w)) = fpsCalculationStartTime (snd w)"
  by (cases a; cases w)
     (simp_all add: service_setPerformanceMode_def subscribe_def unsubscribe_def Let_def
        startMonitoring_def stopMonitoring_def split: option.splits)

lemma performAll_keeps:
  "fps (snd (performAll as w)) = fps (snd w) \<and>
   fpsHistory (snd (performAll as w)) = fpsHistory (snd w) \<and>
   frameCount (snd (performAll as w)) = frameCount (snd w) \<and>
   fpsCalculationStartTime (snd (performAll as w)) = fpsCalculationStartTime (snd w)"
  by (induction as arbitrary: w) (simp_all add: perform_keeps)

lemma forEachFrom_keeps:
  "fps (fe_service (forEachFrom beh m n k pend s)) = fps s \<and>
   fpsHistory (fe_service (forEachFrom beh m n k pend s)) = fpsHistory s \<and>
   frameCount (fe_service (forEachFrom beh m n k pend s)) = frameCount s \<and>
   fpsCalculationStartTime (fe_service (forEachFrom beh m n k pend s)) =
     fpsCalculationStartTime s"
proof (induction n arbitrary: k pend s m)
  case 0
  then show ?case by simp
next
  case (Suc n)
  show ?case
  proof (cases "k < length (callbacks s)")
    case False
    with Suc.IH[of m "Suc k" pend s] show ?thesis by simp
  next
    case True
    let ?r = "beh (callbacks s ! k) k m s"
    let ?w = "performAll (calls ?r) (pend, s)"
    from performAll_keeps[of "calls ?r" "(pend, s)"]
    have w: "fps (snd ?w) = fps s" "fpsHistory (snd ?w) = fpsHistory s"
      "frameCount (snd ?w) = frameCount s"
      "fpsCalculationStartTime (snd ?w) = fpsCalculationStartTime s"
      by simp_all
    show ?thesis
    proof (cases "outcome ?r")
      case Throws
      with True w show ?thesis by (simp add: Let_def)
    next
      case Returns
      with True w Suc.IH[of "leaves ?r" "Suc k" "fst ?w" "snd ?w"] show ?thesis
        by (simp add: Let_def)
    qed
  qed
qed





subsection \<open>One invocation of monitor\<close>

lemma monitor_nonclosing:
  "Suc (frameCount s) mod 60 \<noteq> 0 \<Longrightarrow>
   monitor beh f pend s =
     \<lparr>service = s\<lparr>frameTime := frame_now f - lastTime s, lastTime := frame_now f,
                   frameCount := Suc (frameCount s), animationFrameId := Some (frame_raf f)\<rparr>,
      pending = pend @ [frame_raf f], notified = [], threw = False\<rparr>"
  by (simp add: monitor_def Let_def)

lemma windowClosed_fields:
  "fps (windowClosed f s) = fpsOver (frame_now f - fpsCalculationStartTime s)"
  "fpsCalculationStartTime (windowClosed f s) = frame_now f"
  "frameCount (windowClosed f s) = Suc (frameCount s)"
  "callbacks (windowClosed f s) = callbacks s"
  "animationFrameId (windowClosed f s) = animationFrameId s"
  by (simp_all add: windowClosed_def Let_def updateFPSHistory_def autoAdjustPerformance_def)

lemma monitor_closing:
  "Suc (frameCount s) mod 60 = 0 \<Longrightarrow>
   monitor beh f pend s =
     (let r = forEach beh (snapshot f s) pend (windowClosed f s)
      in if fe_threw r
         then \<lparr>service = fe_service r, pending = fe_pending r,
               notified = fe_notified r, threw = True\<rparr>
         else \<lparr>service = (fe_service r)\<lparr>animationFrameId := Some (frame_raf f)\<rparr>,
               pending = fe_pending r @ [frame_raf f],
               notified = fe_notified r, threw = False\<rparr>)"
  unfolding monitor_def windowClosed_def snapshot_def Let_def getGPUMemoryUsage_def
  by simp

lemma monitor_closing_fields:
  assumes "Suc (frameCount s) mod 60 = 0"
  shows "fps (service (monitor beh f pend s)) = fpsOver (frame_now f - fpsCalculationStartTime s)"
    and "fpsCalculationStartTime (service (monitor beh f pend s)) = frame_now f"
    and "frameCount (service (monitor beh f pend s)) = Suc (frameCount s)"
  by (simp_all add: monitor_closing[OF assms] Let_def forEach_def forEachFrom_keeps
      windowClosed_fields)





lemmas run_simps = evenFrames_def upt_rec monitor_def Let_def newPerformanceService_def
  freshService_def freshRequests_def updateFPSHistory_def autoAdjustPerformance_def
  getAverageFPS_def fpsOver_def getMemoryUsage_def getGPUMemoryUsage_def subscribe_def
  service_setPerformanceMode_def allReturn_def firstThrows_def forEach_def




subsection \<open>Automatic mode\<close>

lemma afterSlowWindow_eq:
  "afterSlowWindow =
     \<lparr>service =
        \<lparr>frameCount = 60, lastTime = 6000, fpsCalculationStartTime = 6000, fps = Finite 10,
         frameTime = 100, fpsHistory = [Finite 10], performanceMode = Low, targetFPS = 60,
         callbacks = [], animationFrameId = Some 60\<rparr>,
      pending = [60], notified = [], threw = False\<rparr>"
  by (simp add: afterSlowWindow_def autoService_def run_simps)

text \<open>
  C1 on the code: after \<open>setPerformanceMode('auto')\<close>, a first window at 10 frames per
  second makes the service switch to low by writing \<open>low\<close> over \<open>auto\<close> in the mode
  field. At the close of the next window, at 125 frames per second, the average is 67.5,
  above 55, and the mode is still low: the threshold table, which would give medium, is no
  longer evaluated, though \<open>setPerformanceMode\<close> was never called with a pinned tier.
\<close>

theorem C1_automatic_switch_ends_automatic_mode:
  "performanceMode autoService = Auto \<and>
   performanceMode (service afterSlowWindow) = Low \<and>
   getAverageFPS (service afterFastWindow) = Finite (135 / 2) \<and>
   performanceMode (service afterFastWindow) = Low \<and>
   performanceMode (autoAdjustPerformance (service afterFastWindow)) = Medium"
  unfolding afterFastWindow_def afterSlowWindow_eq
  by (simp add: autoService_def run_simps)

subsection \<open>Sampling windows\<close>

lemma runFrames_window:
  "fs \<noteq> [] \<Longrightarrow> frameCount s mod 60 + length fs = 60 \<Longrightarrow>
   fps (service (runFrames beh fs pend s)) =
     fpsOver (frame_now (last fs) - fpsCalculationStartTime s) \<and>
   fpsCalculationStartTime (service (runFrames beh fs pend s)) = frame_now (last fs) \<and>
   frameCount (service (runFrames beh fs pend s)) mod 60 = 0"
proof (induction fs arbitrary: s pend)
  case Nil
  then show ?case by simp
next
  case (Cons f fs)
  show ?case
  proof (cases "fs = []")
    case True
    with Cons.prems have "Suc (frameCount s) mod 60 = 0" by (simp add: mod_Suc)
    from monitor_closing_fields[OF this, of beh f "tl pend"] this True show ?thesis
      by (simp add: Let_def)
  next
    case False
    then have "length fs > 0" by simp
    moreover from Cons.prems have "frameCount s mod 60 + length fs = 59" by simp
    ultimately have lt: "frameCount s mod 60 < 59" by linarith
    then have nc: "Suc (frameCount s) mod 60 \<noteq> 0"
      and nx: "Suc (frameCount s) mod 60 + length fs = 60"
      using Cons.prems by (simp_all add: mod_Suc)
    let ?s = "s\<lparr>frameTime := frame_now f - lastTime s, lastTime := frame_now f,
                   frameCount := Suc (frameCount s), animationFrameId := Some (frame_raf f)\<rparr>"
    have "fps (service (runFrames beh fs (tl pend @ [frame_raf f]) ?s)) =
            fpsOver (frame_now (last fs) - fpsCalculationStartTime ?s) \<and>
          fpsCalculationStartTime (service (runFrames beh fs (tl pend @ [frame_raf f]) ?s)) =
            frame_now (last fs) \<and>
          frameCount (service (runFrames beh fs (tl pend @ [frame_raf f]) ?s)) mod 60 = 0"
      using False nx by (intro Cons.IH) simp_all
    with False show ?thesis
      by (simp add: monitor_nonclosing[OF nc] Let_def)
  qed
qed

text \<open>
  C5: from the start of a sampling window, after 60 invocations of \<open>monitor\<close> the
  instantaneous FPS is 60000 over the milliseconds between the start of the window and the
  last of the 60 invocations (\<open>Infinity\<close> when that time is 0), and the next window
  starts at that invocation; with the invocations \<open>T > 0\<close> milliseconds apart, the first
  one \<open>T\<close> after the start of the window, the instantaneous FPS is \<open>60000 / (60 * T)\<close>.
  This holds whatever the subscribers do and whatever frames are requested.
\<close>

theorem C5_fps_of_a_window:
  "(frameCount s mod 60 = 0 \<and> length fs = 60 \<longrightarrow>
      fps (service (runFrames beh fs pend s)) =
        fpsOver (frame_now (last fs) - fpsCalculationStartTime s) \<and>
      fpsCalculationStartTime (service (runFrames beh fs pend s)) = frame_now (last fs) \<and>
      frameCount (service (runFrames beh fs pend s)) mod 60 = 0) \<and>
   (frameCount s mod 60 = 0 \<and> 0 < T \<longrightarrow>
      fps (service (runFrames beh (evenFrames (fpsCalculationStartTime s) T) pend s)) =
        Finite (60000 / (60 * T)))"
proof -
  have a: "fps (service (runFrames beh gs pend s)) =
             fpsOver (frame_now (last gs) - fpsCalculationStartTime s) \<and>
           fpsCalculationStartTime (service (runFrames beh gs pend s)) = frame_now (last gs) \<and>
           frameCount (service (runFrames beh gs pend s)) mod 60 = 0"
    if "frameCount s mod 60 = 0" "length gs = 60" for gs
    using that by (intro runFrames_window) auto
  have l: "frame_now (last (evenFrames t0 T)) = t0 + 60 * T" for t0
    by (simp add: evenFrames_def last_map)
  have b: "fps (service (runFrames beh (evenFrames (fpsCalculationStartTime s) T) pend s)) =
        Finite (60000 / (60 * T))"
    if "frameCount s mod 60 = 0" "0 < T"
    using a[of "evenFrames (fpsCalculationStartTime s) T"] that
    by (simp add: l fpsOver_def) (simp add: evenFrames_def)
  show ?thesis using a[of fs] b by simp
qed

theorem C5_fps_of_a_window_witness:
  "frameCount freshService mod 60 = 0 \<and> length (evenFrames 0 10) = 60 \<and> (0::real) < 10 \<and>
   fpsCalculationStartTime freshService = 0 \<and>
   fps (service (runFrames allReturn (evenFrames 0 10) freshRequests freshService)) = Finite 100 \<and>
   fpsCalculationStartTime
     (service (runFrames allReturn (evenFrames 0 10) freshRequests freshService)) = 600"
  using C5_fps_of_a_window[of freshService "evenFrames 0 10" allReturn freshRequests 10]
  by (simp add: freshService_def newPerformanceService_def evenFrames_def fpsOver_def last_map)

subsection \<open>Subscribers\<close>





lemma twoSubscribersAt59_eq:
  "twoSubscribersAt59 =
     \<lparr>frameCount = 59, lastTime = 590, fpsCalculationStartTime = 0, fps = Finite 60,
      frameTime = 10, fpsHistory = [], performanceMode = Auto, targetFPS = 60,
      callbacks = [1, 2], animationFrameId = Some 59\<rparr>"
  by (simp add: twoSubscribersAt59_def twoSubscribers_def run_simps)





text \<open>
  The walk is over the live array: when subscriber 1 invokes its own unsubscribe handle
  and returns, subscriber 2 moves to position 0 and is passed over, with nothing thrown.
\<close>

lemma live_array_skips_after_unsubscribe:
  "map fst (notified (monitor firstUnsubscribesItself closingFrame [] twoSubscribersAt59)) = [1] \<and>
   \<not> threw (monitor firstUnsubscribesItself closingFrame [] twoSubscribersAt59) \<and>
   callbacks (service (monitor firstUnsubscribesItself closingFrame [] twoSubscribersAt59)) = [2]"
  by (simp add: twoSubscribersAt59_eq closingFrame_def firstUnsubscribesItself_def monitor_def
      Let_def updateFPSHistory_def autoAdjustPerformance_def getAverageFPS_def fpsOver_def
      getMemoryUsage_def getGPUMemoryUsage_def forEach_def unsubscribe_def splice1_def)

subsection \<open>Unsubscribing\<close>

lemma indexOf_notin: "a \<notin> set xs \<Longrightarrow> indexOf xs a = -1"
  by (induction xs) (auto simp: Let_def)

lemma indexOf_in: "a \<in> set xs \<Longrightarrow> indexOf xs a \<ge> 0"
  by (induction xs) (auto simp: Let_def)

lemma splice1_indexOf: "a \<in> set xs \<Longrightarrow> splice1 (nat (indexOf xs a)) xs = remove1 a xs"
proof (induction xs)
  case Nil
  then show ?case by simp
next
  case (Cons x xs)
  show ?case
  proof (cases "x = a")
    case True
    then show ?thesis by (simp add: splice1_def)
  next
    case False
    with Cons.prems have in_xs: "a \<in> set xs" by simp
    from indexOf_in[OF in_xs] have "nat (indexOf xs a + 1) = Suc (nat (indexOf xs a))" by simp
    with Cons.IH[OF in_xs] False indexOf_in[OF in_xs] show ?thesis
      by (simp add: splice1_def Let_def)
  qed
qed

lemma unsubscribe_eq: "unsubscribe cb s = s\<lparr>callbacks := remove1 cb (callbacks s)\<rparr>"
proof (cases "cb \<in> set (callbacks s)")
  case True
  with indexOf_in[OF True] splice1_indexOf[OF True] show ?thesis
    by (simp add: unsubscribe_def Let_def)
next
  case False
  with indexOf_notin[OF False] show ?thesis
    by (simp add: unsubscribe_def Let_def remove1_idem)
qed

text \<open>
  C4, as the code has it: the handle returned by \<open>subscribe cb\<close> removes the earliest
  registration of the function \<open>cb\<close> that is still in the list, and leaves the
  registrations of all other functions, and their order, as they are. When \<open>cb\<close> is
  registered at most once, the first invocation removes that registration and the second
  invocation changes nothing.
\<close>

theorem C4_unsubscribe_removes_first_occurrence:
  "callbacks (unsubscribe cb s) = remove1 cb (callbacks s) \<and>
   filter (\<lambda>c. c \<noteq> cb) (callbacks (unsubscribe cb s)) = filter (\<lambda>c. c \<noteq> cb) (callbacks s) \<and>
   (count_list (callbacks s) cb \<le> 1 \<longrightarrow>
      cb \<notin> set (callbacks (unsubscribe cb s)) \<and>
      unsubscribe cb (unsubscribe cb s) = unsubscribe cb s)"
proof -
  have f: "filter (\<lambda>c. c \<noteq> cb) (remove1 cb xs) = filter (\<lambda>c. c \<noteq> cb) xs" for xs
    by (induction xs) simp_all
  have n: "count_list xs cb \<le> 1 \<Longrightarrow> cb \<notin> set (remove1 cb xs)" for xs
    by (induction xs) (auto simp: count_list_0_iff)
  have i: "unsubscribe cb (unsubscribe cb s) = unsubscribe cb s"
    if "count_list (callbacks s) cb \<le> 1"
    using n[OF that] by (simp add: unsubscribe_eq remove1_idem)
  show ?thesis using n i by (simp add: unsubscribe_eq f)
qed

theorem C4_unsubscribe_removes_first_occurrence_witness:
  "count_list (callbacks twoSubscribers) 1 \<le> 1 \<and>
   callbacks (unsubscribe 1 twoSubscribers) = [2] \<and>
   callbacks (unsubscribe 1 (unsubscribe 1 twoSubscribers)) = [2]"
  using C4_unsubscribe_removes_first_occurrence[of 1 twoSubscribers]
  by (simp add: twoSubscribers_def subscribe_def freshService_def newPerformanceService_def)

text \<open>
  C4 as stated fails: with the same function subscribed twice, the first invocation of a
  handle leaves one registration and the second invocation of the same handle removes
  that one too.
\<close>

theorem C4_second_unsubscribe_removes_other_registration:
  "callbacks (subscribe 7 (subscribe 7 freshService)) = [7, 7] \<and>
   callbacks (unsubscribe 7 (subscribe 7 (subscribe 7 freshService))) = [7] \<and>
   callbacks (unsubscribe 7 (unsubscribe 7 (subscribe 7 (subscribe 7 freshService)))) = []"
  by (simp add: unsubscribe_def subscribe_def freshService_def newPerformanceService_def
      splice1_def Let_def)

section \<open>Theorems: camera controller\<close>















end
